theory Spec2Isabelle
  imports Main
begin

section \<open>Go values and the library functions the program calls\<close>

text \<open>
  A Go \<^verbatim>\<open>string\<close> and a \<^verbatim>\<open>[]byte\<close> are both byte sequences, so both are
  modelled by \<^typ>\<open>string\<close> (a list of 8-bit characters) and the conversion
  \<^verbatim>\<open>string(data)\<close> is the identity. A Go \<^verbatim>\<open>error\<close> is a value carrying the message
  that its \<^verbatim>\<open>Error()\<close> method returns; \<^verbatim>\<open>errors.New(s)\<close> builds one.
\<close>

type_synonym bytes = string

datatype error = errors_New (Error: string)

subsection \<open>Package strings\<close>

text \<open>
  \<^verbatim>\<open>strings.HasPrefix\<close> and \<^verbatim>\<open>strings.HasSuffix\<close> compare a slice of the
  string with the affix after checking the lengths.
\<close>

definition HasPrefix :: "string \<Rightarrow> string \<Rightarrow> bool" where
  "HasPrefix s p = (length s \<ge> length p \<and> take (length p) s = p)"

definition HasSuffix :: "string \<Rightarrow> string \<Rightarrow> bool" where
  "HasSuffix s p = (length s \<ge> length p \<and> drop (length s - length p) s = p)"

text \<open>
  \<^verbatim>\<open>strings.Split(s, sep)\<close> for a separator of one byte (the program uses
  \<^verbatim>\<open>"@"\<close> and \<^verbatim>\<open>"?"\<close> only): the pieces between the separators, in order, one
  more than there are separators; the empty string gives one empty piece.
  \<open>splitFrom sep cur s\<close> scans \<open>s\<close> with \<open>cur\<close> the piece read so far.
\<close>

fun splitFrom :: "char \<Rightarrow> string \<Rightarrow> string \<Rightarrow> string list" where
  "splitFrom sep cur [] = [cur]"
| "splitFrom sep cur (c # cs) =
     (if c = sep then cur # splitFrom sep [] cs else splitFrom sep (cur @ [c]) cs)"

definition Split :: "string \<Rightarrow> char \<Rightarrow> string list" where
  "Split s sep = splitFrom sep [] s"

text \<open>
  \<^verbatim>\<open>strings.ToLower\<close> has a fast path for strings of ASCII bytes only, where it
  adds \<^verbatim>\<open>'a' - 'A'\<close> to every byte between \<^verbatim>\<open>'A'\<close> and \<^verbatim>\<open>'Z'\<close>; any other
  string goes through \<^verbatim>\<open>strings.Map(unicode.ToLower, s)\<close>, whose Unicode tables
  are a parameter of the model (\<open>unicode_ToLower\<close> below).
\<close>

definition lowerASCII :: "char \<Rightarrow> char" where
  "lowerASCII c =
     (if (65::nat) \<le> of_char c \<and> of_char c \<le> (90::nat) then char_of (of_char c + (32::nat)) else c)"

definition isASCII :: "string \<Rightarrow> bool" where
  "isASCII s = list_all (\<lambda>c. of_char c < (128::nat)) s"

subsection \<open>Package encoding/base64\<close>

definition encodeStd :: string where
  "encodeStd = ''ABCDEFGHIJKLMNOPQRSTUVWXYZabcdefghijklmnopqrstuvwxyz0123456789+/''"

text \<open>
  \<^verbatim>\<open>base64.StdEncoding.EncodeToString\<close>: every 3 bytes give 4 characters of the
  standard alphabet; a last group of 1 or 2 bytes is padded with \<^verbatim>\<open>=\<close>.
\<close>

fun EncodeToString :: "bytes \<Rightarrow> string" where
  "EncodeToString (a # b # c # rest) =
     (let v = of_char a * 65536 + of_char b * 256 + of_char c :: nat
      in [encodeStd ! (v div 262144 mod 64), encodeStd ! (v div 4096 mod 64),
          encodeStd ! (v div 64 mod 64), encodeStd ! (v mod 64)] @ EncodeToString rest)"
| "EncodeToString [a, b] =
     (let v = of_char a * 65536 + of_char b * 256 :: nat
      in [encodeStd ! (v div 262144 mod 64), encodeStd ! (v div 4096 mod 64),
          encodeStd ! (v div 64 mod 64), CHR ''=''])"
| "EncodeToString [a] =
     (let v = of_char a * 65536 :: nat
      in [encodeStd ! (v div 262144 mod 64), encodeStd ! (v div 4096 mod 64),
          CHR ''='', CHR ''=''])"
| "EncodeToString [] = []"

subsection \<open>Package io\<close>

text \<open>
  An \<^verbatim>\<open>io.Reader\<close> handed to the program is a stream that delivers some bytes and
  then ends, either at EOF (\<open>failure = None\<close>) or with a read error.
  \<^verbatim>\<open>ioutil.ReadAll\<close> reads until an error or EOF and returns the data it read,
  together with the error (EOF is not reported as an error).
\<close>

datatype Reader = Reader (content: bytes) (failure: "error option")

definition ReadAll :: "Reader \<Rightarrow> bytes \<times> error option" where
  "ReadAll r = (content r, failure r)"

subsection \<open>Library functions taken as parameters\<close>

text \<open>
  The encodings that \<^verbatim>\<open>getEncodingByName\<close> can return.
\<close>

datatype Encoding = Windows1255 | UTF8

text \<open>
  The functions of the Go libraries whose tables are not part of the program:
  \<^item> \<open>unicode_ToLower\<close>: \<^verbatim>\<open>strings.Map(unicode.ToLower, s)\<close>, the path of
    \<^verbatim>\<open>strings.ToLower\<close> for a string with a byte outside ASCII;
  \<^item> \<open>DecodeString\<close>: \<^verbatim>\<open>base64.StdEncoding.DecodeString\<close>;
  \<^item> \<open>Decoder_ReadAll\<close>: reading all of
    \<^verbatim>\<open>transform.NewReader(bytes.NewReader(data), encoding.NewDecoder())\<close>;
  \<^item> \<open>charset_NewReader\<close>: \<^verbatim>\<open>charset.NewReader(strings.NewReader(s), label)\<close>,
    which returns a reader of the converted text or an error.
  Every theorem below holds for all values of these parameters.
\<close>

record lib =
  unicode_ToLower :: "string \<Rightarrow> string"
  DecodeString :: "string \<Rightarrow> error + bytes"
  Decoder_ReadAll :: "Encoding \<Rightarrow> bytes \<Rightarrow> error + bytes"
  charset_NewReader :: "string \<Rightarrow> string \<Rightarrow> error + Reader"

definition ToLower :: "lib \<Rightarrow> string \<Rightarrow> string" where
  "ToLower L s = (if isASCII s then map lowerASCII s else unicode_ToLower L s)"

section \<open>Charset and MIME header decoding\<close>

text \<open>\<^verbatim>\<open>getEncodingByName\<close> returns the encoding object by name.\<close>

definition getEncodingByName :: "lib \<Rightarrow> string \<Rightarrow> Encoding \<times> string" where
  "getEncodingByName L name =
     (if ToLower L name = ''windows-1255'' then (Windows1255, ''windows-1255'')
      else (UTF8, ''utf-8''))"

text \<open>\<^verbatim>\<open>convertToUTF8\<close> converts the bytes from the named charset to UTF-8.\<close>

definition convertToUTF8 :: "lib \<Rightarrow> bytes \<Rightarrow> string \<Rightarrow> error + string" where
  "convertToUTF8 L data charsetName =
     (let (encoding, name) = getEncodingByName L charsetName
      in if name \<noteq> ''utf-8''
         then (case Decoder_ReadAll L encoding data of
                 Inl err \<Rightarrow> Inl err
               | Inr decodedBody \<Rightarrow> Inr decodedBody)
         else Inr data)"

text \<open>\<^verbatim>\<open>decodeCharset\<close> (the version with a charset name) decodes a body.\<close>

definition decodeCharset :: "lib \<Rightarrow> bytes \<Rightarrow> string \<Rightarrow> error + string" where
  "decodeCharset L encodedBody charsetName = convertToUTF8 L encodedBody charsetName"

text \<open>\<^verbatim>\<open>decodeMIMEHeader\<close> decodes a MIME encoded word such as
  \<^verbatim>\<open>=?windows-1255?B?...?=\<close>.\<close>

definition decodeMIMEHeader :: "lib \<Rightarrow> string \<Rightarrow> error + string" where
  "decodeMIMEHeader L encoded =
     (if HasPrefix encoded ''=?'' \<and> HasSuffix encoded ''?=''
      then
        (let sections = Split encoded (CHR ''?'')
         in if length sections \<noteq> 5
            then Inl (errors_New ''invalid MIME encoding format'')
            else
              (let charset = ToLower L (sections ! 1);
                   encoding = ToLower L (sections ! 2);
                   encodedText = sections ! 3
               in if encoding = ''b''
                  then (case DecodeString L encodedText of
                          Inl err \<Rightarrow> Inl err
                        | Inr decodedBytes \<Rightarrow>
                            (case convertToUTF8 L decodedBytes charset of
                               Inl err \<Rightarrow> Inl err
                             | Inr decodedText \<Rightarrow> Inr decodedText))
                  else Inr encoded))
      else Inr encoded)"

section \<open>The data the handler consumes and produces\<close>

subsection \<open>From the mail server: the parsed message and the transaction\<close>

text \<open>
  A \<^verbatim>\<open>time.Time\<close> is used through its \<^verbatim>\<open>String()\<close> method only, so it is
  represented by that rendering.
\<close>

datatype Time = Time (Time_String: string)

text \<open>
  Modelled from the spec: the declaration of the SPF verdict type and its
  \<^verbatim>\<open>String()\<close> method belong to the mail-server library and are not in the
  sources. The verdict is one of a small enumerated set, rendered as \<^verbatim>\<open>pass\<close>,
  \<^verbatim>\<open>fail\<close>, \<^verbatim>\<open>neutral\<close>, \<^verbatim>\<open>softfail\<close>, \<^verbatim>\<open>none\<close>, \<^verbatim>\<open>temperror\<close>,
  \<^verbatim>\<open>permerror\<close>.
\<close>

datatype SPFResult =
  SPFNone | SPFNeutral | SPFPass | SPFFail | SPFSoftfail | SPFTemperror | SPFPermerror

fun SPFResult_String :: "SPFResult \<Rightarrow> string" where
  "SPFResult_String SPFNone = ''none''"
| "SPFResult_String SPFNeutral = ''neutral''"
| "SPFResult_String SPFPass = ''pass''"
| "SPFResult_String SPFFail = ''fail''"
| "SPFResult_String SPFSoftfail = ''softfail''"
| "SPFResult_String SPFTemperror = ''temperror''"
| "SPFResult_String SPFPermerror = ''permerror''"

text \<open>\<^verbatim>\<open>mail.Address\<close> of package net/mail.\<close>

record MailAddress =
  mail_Name :: string
  mail_Address :: string

text \<open>An attachment and an embedded file of the parsed message, each with its data stream.\<close>

record Attachment =
  att_Filename :: string
  att_ContentType :: string
  att_Data :: Reader

record EmbeddedFile =
  emb_CID :: string
  emb_ContentType :: string
  emb_Data :: Reader

text \<open>
  The parsed message \<^verbatim>\<open>msg\<close> that \<^verbatim>\<open>c.Parse()\<close> returns, with the fields the
  handler reads.
\<close>

record Email =
  msg_MessageID :: string
  msg_Date :: Time
  msg_References :: "string list"
  msg_ResentDate :: Time
  msg_ResentMessageID :: string
  msg_Subject :: string
  msg_HTMLBody :: bytes
  msg_HTMLCharset :: string
  msg_TextBody :: bytes
  msg_TextCharset :: string
  msg_Cc :: "MailAddress list"
  msg_Bcc :: "MailAddress list"
  msg_ReplyTo :: "MailAddress list"
  msg_InReplyTo :: string
  msg_ResentFrom :: "MailAddress list"
  msg_ResentTo :: "MailAddress list"
  msg_ResentCc :: "MailAddress list"
  msg_ResentBcc :: "MailAddress list"
  msg_Attachments :: "Attachment list"
  msg_EmbeddedFiles :: "EmbeddedFile list"

text \<open>
  The \<^verbatim>\<open>smtpsrv.Context\<close> of one transaction, as the results of the four methods
  the handler calls: \<^verbatim>\<open>c.Parse()\<close>, \<^verbatim>\<open>c.SPF()\<close> (verdict, explanation, error),
  \<^verbatim>\<open>c.From()\<close> and \<^verbatim>\<open>c.To()\<close>.
\<close>

record Context =
  ctx_Parse :: "error + Email"
  ctx_SPF :: "SPFResult \<times> string \<times> error option"
  ctx_From :: MailAddress
  ctx_To :: MailAddress

text \<open>The two command-line flags the handler reads.\<close>

record Flags =
  flagDomain :: string
  flagWebhook :: string

subsection \<open>To the webhook: the JSON record\<close>

text \<open>
  The types \<^verbatim>\<open>EmailMessage\<close>, \<^verbatim>\<open>EmailAddress\<close>, \<^verbatim>\<open>EmailAttachment\<close> and
  \<^verbatim>\<open>EmailEmbeddedFile\<close> are declared outside the given sources; their fields are
  the ones the handler assigns. \<open>ResentFrom\<close> is a pointer the handler leaves nil
  when the message has no such address.
\<close>

record EmailAddress =
  Name :: string
  Address :: string

record EmailAttachment =
  Filename :: string
  ContentType :: string
  Data :: string

record EmailEmbeddedFile =
  CID :: string
  EmbeddedContentType :: string
  EmbeddedData :: string

record EmailBody =
  HTML :: string
  Text :: string

record EmailAddresses =
  From :: EmailAddress
  To :: EmailAddress
  Cc :: "EmailAddress list"
  Bcc :: "EmailAddress list"
  ReplyTo :: "EmailAddress list"
  InReplyTo :: string
  ResentFrom :: "EmailAddress option"
  ResentTo :: "EmailAddress list"
  ResentCc :: "EmailAddress list"
  ResentBcc :: "EmailAddress list"

record EmailMessage =
  ID :: string
  Date :: string
  References :: "string list"
  SPFResult :: string
  ResentDate :: string
  ResentID :: string
  Subject :: string
  Attachments :: "EmailAttachment list"
  EmbeddedFiles :: "EmailEmbeddedFile list"
  Body :: EmailBody
  Addresses :: EmailAddresses

text \<open>
  Modelled from the spec: the function \<^verbatim>\<open>transformStdAddressToEmailAddress\<close> is
  called by the handler but defined outside the given sources. The address
  canonicalizer maps parsed mail-address records into the address representation
  (display name and address), as a pure shape transform, one output per input.
\<close>

fun transformStdAddressToEmailAddress :: "MailAddress list \<Rightarrow> EmailAddress list" where
  "transformStdAddressToEmailAddress [] = []"
| "transformStdAddressToEmailAddress (e # addr) =
     \<lparr>Name = mail_Name e, Address = mail_Address e\<rparr> # transformStdAddressToEmailAddress addr"

subsection \<open>The webhook and the effects of a run\<close>

text \<open>The response of the webhook: \<^verbatim>\<open>resp.StatusCode()\<close> and \<^verbatim>\<open>resp.Status()\<close>.\<close>

record Response =
  StatusCode :: int
  Status :: string

text \<open>
  What a run of the handler does to the outside, in order: a line written with
  \<^verbatim>\<open>log.Println\<close>, a data stream of an attachment or embedded file read with
  \<^verbatim>\<open>ioutil.ReadAll\<close>, and the HTTP POST of the JSON record to a URL.
\<close>

datatype event =
  Logged string
| StreamRead Reader
| Posted string EmailMessage

fun is_StreamRead :: "event \<Rightarrow> bool" where
  "is_StreamRead (StreamRead r) = True"
| "is_StreamRead e = False"

fun is_Posted :: "event \<Rightarrow> bool" where
  "is_Posted (Posted url body) = True"
| "is_Posted e = False"

section \<open>The handler\<close>

text \<open>
  The two loops of the handler: each reads the item's stream to its end, drops
  the error of the read, and appends the item with its data in base64.
\<close>

fun readAttachments ::
  "Attachment list \<Rightarrow> event list \<times> EmailAttachment list \<Rightarrow> event list \<times> EmailAttachment list"
where
  "readAttachments [] st = st"
| "readAttachments (a # as) (tr, attachments) =
     (let (data, _) = ReadAll (att_Data a)
      in readAttachments as
           (tr @ [StreamRead (att_Data a)],
            attachments @ [\<lparr>Filename = att_Filename a, ContentType = att_ContentType a,
                            Data = EncodeToString data\<rparr>]))"

fun readEmbeddedFiles ::
  "EmbeddedFile list \<Rightarrow> event list \<times> EmailEmbeddedFile list
     \<Rightarrow> event list \<times> EmailEmbeddedFile list"
where
  "readEmbeddedFiles [] st = st"
| "readEmbeddedFiles (a # as) (tr, embeddedFiles) =
     (let (data, _) = ReadAll (emb_Data a)
      in readEmbeddedFiles as
           (tr @ [StreamRead (emb_Data a)],
            embeddedFiles @ [\<lparr>CID = emb_CID a, EmbeddedContentType = emb_ContentType a,
                              EmbeddedData = EncodeToString data\<rparr>]))"

definition E1 :: string where
  "E1 = ''E1: Cannot accept your message due to internal error, please report that to our engineers''"

definition E2 :: string where
  "E2 = ''E2: Cannot accept your message due to internal error, please report that to our engineers''"

text \<open>
  The function given to \<^verbatim>\<open>smtpsrv.HandlerFunc\<close> in the file with the flag
  definitions. A run takes the library, the flags, the outcome \<open>post\<close> of the one
  HTTP POST it may issue (a transport error, or the response) and the transaction;
  it gives the events of the run in order and the error the handler returns
  (\<open>None\<close> for \<^verbatim>\<open>nil\<close>: the message is accepted).
\<close>

definition Handler ::
  "lib \<Rightarrow> Flags \<Rightarrow> error + Response \<Rightarrow> Context \<Rightarrow> event list \<times> error option"
where
  "Handler L F post c =
     (case ctx_Parse c of
        Inl err \<Rightarrow> ([], Some (errors_New (''Cannot read your message: '' @ Error err)))
      | Inr msg \<Rightarrow>
         (let spfResult = fst (ctx_SPF c);
              (decodedSubject, log1) =
                 (case decodeMIMEHeader L (msg_Subject msg) of
                    Inl err \<Rightarrow>
                      (msg_Subject msg, [Logged (''Failed to decode subject: '' @ Error err)])
                  | Inr s \<Rightarrow> (s, []));
              (html, log2) =
                 (case decodeCharset L (msg_HTMLBody msg) (msg_HTMLCharset msg) of
                    Inl err \<Rightarrow>
                      (msg_HTMLBody msg, [Logged (''Failed to decode HTML body: '' @ Error err)])
                  | Inr s \<Rightarrow> (s, []));
              (text, log3) =
                 (case decodeCharset L (msg_TextBody msg) (msg_TextCharset msg) of
                    Inl err \<Rightarrow>
                      (msg_TextBody msg, [Logged (''Failed to decode Text body: '' @ Error err)])
                  | Inr s \<Rightarrow> (s, []));
              from = transformStdAddressToEmailAddress [ctx_From c] ! 0;
              to = transformStdAddressToEmailAddress [ctx_To c] ! 0;
              toSplited = Split (Address to) (CHR ''@'');
              logs = log1 @ log2 @ log3
          in if length (flagDomain F) > 0 \<and> (length toSplited < 2 \<or> toSplited ! 1 \<noteq> flagDomain F)
             then (logs @ [Logged ''domain not allowed'', Logged (flagDomain F)],
                   Some (errors_New ''Unauthorized TO domain''))
             else
               (let addresses =
                      \<lparr>From = from, To = to,
                       Cc = transformStdAddressToEmailAddress (msg_Cc msg),
                       Bcc = transformStdAddressToEmailAddress (msg_Bcc msg),
                       ReplyTo = transformStdAddressToEmailAddress (msg_ReplyTo msg),
                       InReplyTo = msg_InReplyTo msg,
                       ResentFrom =
                         (case transformStdAddressToEmailAddress (msg_ResentFrom msg) of
                            [] \<Rightarrow> None
                          | resentFrom0 # _ \<Rightarrow> Some resentFrom0),
                       ResentTo = transformStdAddressToEmailAddress (msg_ResentTo msg),
                       ResentCc = transformStdAddressToEmailAddress (msg_ResentCc msg),
                       ResentBcc = transformStdAddressToEmailAddress (msg_ResentBcc msg)\<rparr>;
                    (reads1, attachments) = readAttachments (msg_Attachments msg) ([], []);
                    (reads2, embeddedFiles) = readEmbeddedFiles (msg_EmbeddedFiles msg) ([], []);
                    jsonData =
                      \<lparr>ID = msg_MessageID msg,
                       Date = Time_String (msg_Date msg),
                       References = msg_References msg,
                       SPFResult = SPFResult_String spfResult,
                       ResentDate = Time_String (msg_ResentDate msg),
                       ResentID = msg_ResentMessageID msg,
                       Subject = decodedSubject,
                       Attachments = attachments,
                       EmbeddedFiles = embeddedFiles,
                       Body = \<lparr>HTML = html, Text = text\<rparr>,
                       Addresses = addresses\<rparr>;
                    tr = logs @ reads1 @ reads2 @ [Posted (flagWebhook F) jsonData]
                in case post of
                     Inl err \<Rightarrow> (tr @ [Logged (Error err)], Some (errors_New E1))
                   | Inr resp \<Rightarrow>
                       if StatusCode resp \<noteq> 200
                       then (tr @ [Logged (Status resp)], Some (errors_New E2))
                       else (tr, None))))"

text \<open>
  The file \<^verbatim>\<open>main.go\<close> holds a second version of the program. Its
  \<^verbatim>\<open>decodeCharset\<close> takes the two bodies and reads each through
  \<^verbatim>\<open>charset.NewReader\<close> with the label \<^verbatim>\<open>utf-8\<close>, keeping the body as it is
  when \<^verbatim>\<open>NewReader\<close> fails; the error of reading the converted text is dropped.
\<close>

definition decodeCharset_main_go :: "lib \<Rightarrow> string \<Rightarrow> string \<Rightarrow> string \<times> string" where
  "decodeCharset_main_go L htmlBody textBody =
     (let htmlCharset = ''utf-8'';
          htmlBodyDecoded =
            (case charset_NewReader L htmlBody htmlCharset of
               Inr decodedBody \<Rightarrow> fst (ReadAll decodedBody)
             | Inl err \<Rightarrow> htmlBody);
          textCharset = ''utf-8'';
          textBodyDecoded =
            (case charset_NewReader L textBody textCharset of
               Inr decodedBody \<Rightarrow> fst (ReadAll decodedBody)
             | Inl err \<Rightarrow> textBody)
      in (htmlBodyDecoded, textBodyDecoded))"

text \<open>
  The handler of \<^verbatim>\<open>main.go\<close>: the subject is taken as it is and the bodies go
  through the two-body \<^verbatim>\<open>decodeCharset\<close>; from the address handling on it is
  the same text as the other version.
\<close>

definition Handler_main_go ::
  "lib \<Rightarrow> Flags \<Rightarrow> error + Response \<Rightarrow> Context \<Rightarrow> event list \<times> error option"
where
  "Handler_main_go L F post c =
     (case ctx_Parse c of
        Inl err \<Rightarrow> ([], Some (errors_New (''Cannot read your message: '' @ Error err)))
      | Inr msg \<Rightarrow>
         (let spfResult = fst (ctx_SPF c);
              (html, text) = decodeCharset_main_go L (msg_HTMLBody msg) (msg_TextBody msg);
              from = transformStdAddressToEmailAddress [ctx_From c] ! 0;
              to = transformStdAddressToEmailAddress [ctx_To c] ! 0;
              toSplited = Split (Address to) (CHR ''@'')
          in if length (flagDomain F) > 0 \<and> (length toSplited < 2 \<or> toSplited ! 1 \<noteq> flagDomain F)
             then ([Logged ''domain not allowed'', Logged (flagDomain F)],
                   Some (errors_New ''Unauthorized TO domain''))
             else
               (let addresses =
                      \<lparr>From = from, To = to,
                       Cc = transformStdAddressToEmailAddress (msg_Cc msg),
                       Bcc = transformStdAddressToEmailAddress (msg_Bcc msg),
                       ReplyTo = transformStdAddressToEmailAddress (msg_ReplyTo msg),
                       InReplyTo = msg_InReplyTo msg,
                       ResentFrom =
                         (case transformStdAddressToEmailAddress (msg_ResentFrom msg) of
                            [] \<Rightarrow> None
                          | resentFrom0 # _ \<Rightarrow> Some resentFrom0),
                       ResentTo = transformStdAddressToEmailAddress (msg_ResentTo msg),
                       ResentCc = transformStdAddressToEmailAddress (msg_ResentCc msg),
                       ResentBcc = transformStdAddressToEmailAddress (msg_ResentBcc msg)\<rparr>;
                    (reads1, attachments) = readAttachments (msg_Attachments msg) ([], []);
                    (reads2, embeddedFiles) = readEmbeddedFiles (msg_EmbeddedFiles msg) ([], []);
                    jsonData =
                      \<lparr>ID = msg_MessageID msg,
                       Date = Time_String (msg_Date msg),
                       References = msg_References msg,
                       SPFResult = SPFResult_String spfResult,
                       ResentDate = Time_String (msg_ResentDate msg),
                       ResentID = msg_ResentMessageID msg,
                       Subject = msg_Subject msg,
                       Attachments = attachments,
                       EmbeddedFiles = embeddedFiles,
                       Body = \<lparr>HTML = html, Text = text\<rparr>,
                       Addresses = addresses\<rparr>;
                    tr = reads1 @ reads2 @ [Posted (flagWebhook F) jsonData]
                in case post of
                     Inl err \<Rightarrow> (tr @ [Logged (Error err)], Some (errors_New E1))
                   | Inr resp \<Rightarrow>
                       if StatusCode resp \<noteq> 200
                       then (tr @ [Logged (Status resp)], Some (errors_New E2))
                       else (tr, None))))"

subsection \<open>Reading a run\<close>

text \<open>The JSON records posted in a run, and the streams read in it, in order.\<close>

fun posted_bodies :: "event list \<Rightarrow> EmailMessage list" where
  "posted_bodies [] = []"
| "posted_bodies (Posted url body # es) = body # posted_bodies es"
| "posted_bodies (e # es) = posted_bodies es"

fun streams_read :: "event list \<Rightarrow> Reader list" where
  "streams_read [] = []"
| "streams_read (StreamRead r # es) = r # streams_read es"
| "streams_read (e # es) = streams_read es"

fun logged_lines :: "event list \<Rightarrow> string list" where
  "logged_lines [] = []"
| "logged_lines (Logged s # es) = s # logged_lines es"
| "logged_lines (e # es) = logged_lines es"

text \<open>The same event with the \<open>SPFResult\<close> field of a posted record replaced.\<close>

fun with_SPFResult :: "string \<Rightarrow> event \<Rightarrow> event" where
  "with_SPFResult v (Posted url body) = Posted url (body\<lparr>SPFResult := v\<rparr>)"
| "with_SPFResult v e = e"

text \<open>The error with which the handler rejects a recipient outside the allowed domain.\<close>

definition DomainRejected :: error where
  "DomainRejected = errors_New ''Unauthorized TO domain''"

section \<open>Sample inputs\<close>

text \<open>
  A stand-in for the library on which the definitions can be run: strings with a
  byte outside ASCII are left as they are, the base64 decoder knows one input,
  the charset decoder fails on the empty input and otherwise returns the bytes,
  and \<^verbatim>\<open>charset.NewReader\<close> gives a reader of the string itself.
\<close>

definition sample_lib :: lib where
  "sample_lib =
     \<lparr>unicode_ToLower = (\<lambda>s. s),
      DecodeString =
        (\<lambda>s. if s = ''AQID'' then Inr [CHR 0x01, CHR 0x02, CHR 0x03]
              else Inl (errors_New ''illegal base64 data at input byte 0'')),
      Decoder_ReadAll =
        (\<lambda>enc data. if data = [] then Inl (errors_New ''unexpected EOF'') else Inr data),
      charset_NewReader = (\<lambda>s label. Inr (Reader s None))\<rparr>"

definition sample_flags :: Flags where
  "sample_flags = \<lparr>flagDomain = ''example.com'', flagWebhook = ''http://localhost/hook''\<rparr>"

definition open_flags :: Flags where
  "open_flags = \<lparr>flagDomain = [], flagWebhook = ''http://localhost/hook''\<rparr>"

text \<open>
  A message with three items: an attachment of the bytes 1, 2, 3 whose stream ends
  at EOF, an attachment whose stream delivers one byte and then fails, and an
  embedded file whose stream fails before any byte.
\<close>

definition sample_msg :: Email where
  "sample_msg =
     \<lparr>msg_MessageID = ''id-1'',
      msg_Date = Time ''2024-01-01 00:00:00 +0000 UTC'',
      msg_References = [],
      msg_ResentDate = Time ''0001-01-01 00:00:00 +0000 UTC'',
      msg_ResentMessageID = [],
      msg_Subject = ''=?utf-8?Q?abc?='',
      msg_HTMLBody = ''<p>hi</p>'',
      msg_HTMLCharset = ''UTF-8'',
      msg_TextBody = ''hi'',
      msg_TextCharset = ''latin1'',
      msg_Cc = [\<lparr>mail_Name = ''C'', mail_Address = ''c@example.com''\<rparr>,
                \<lparr>mail_Name = ''C'', mail_Address = ''c@example.com''\<rparr>],
      msg_Bcc = [],
      msg_ReplyTo = [],
      msg_InReplyTo = [],
      msg_ResentFrom = [],
      msg_ResentTo = [],
      msg_ResentCc = [],
      msg_ResentBcc = [],
      msg_Attachments =
        [\<lparr>att_Filename = ''a.bin'', att_ContentType = ''application/octet-stream'',
          att_Data = Reader [CHR 0x01, CHR 0x02, CHR 0x03] None\<rparr>,
         \<lparr>att_Filename = ''b.bin'', att_ContentType = ''application/octet-stream'',
          att_Data = Reader [CHR 0x01] (Some (errors_New ''connection reset''))\<rparr>],
      msg_EmbeddedFiles =
        [\<lparr>emb_CID = ''cid-1'', emb_ContentType = ''image/png'',
          emb_Data = Reader [] (Some (errors_New ''connection reset''))\<rparr>]\<rparr>"

definition sample_ctx :: "string \<Rightarrow> Context" where
  "sample_ctx to =
     \<lparr>ctx_Parse = Inr sample_msg,
      ctx_SPF = (SPFPass, [], None),
      ctx_From = \<lparr>mail_Name = ''Sender'', mail_Address = ''sender@other.org''\<rparr>,
      ctx_To = \<lparr>mail_Name = [], mail_Address = to\<rparr>\<rparr>"

definition response :: "int \<Rightarrow> string \<Rightarrow> error + Response" where
  "response code line = Inr \<lparr>StatusCode = code, Status = line\<rparr>"

section \<open>Facts about the library functions\<close>

lemma splitFrom_no_sep: "sep \<notin> set s \<Longrightarrow> splitFrom sep cur s = [cur @ s]"
  by (induction s arbitrary: cur) auto

lemma splitFrom_sep:
  "sep \<notin> set a \<Longrightarrow> splitFrom sep cur (a @ sep # b) = (cur @ a) # splitFrom sep [] b"
  by (induction a arbitrary: cur) auto

lemma Split_no_sep: "sep \<notin> set s \<Longrightarrow> Split s sep = [s]"
  by (simp add: Split_def splitFrom_no_sep)

lemma Split_cons: "sep \<notin> set a \<Longrightarrow> Split (a @ sep # b) sep = a # Split b sep"
  by (simp add: Split_def splitFrom_sep)

lemma Split_once:
  "sep \<notin> set a \<Longrightarrow> sep \<notin> set b \<Longrightarrow> Split (a @ sep # b) sep = [a, b]"
  by (simp add: Split_cons Split_no_sep)

lemma length_splitFrom: "length (splitFrom sep cur s) = Suc (count_list s sep)"
  by (induction s arbitrary: cur) simp_all

lemma length_Split: "length (Split s sep) = Suc (count_list s sep)"
  by (simp add: Split_def length_splitFrom)

lemma HasPrefix_iff: "HasPrefix s p = (\<exists>t. s = p @ t)"
  unfolding HasPrefix_def
  by (auto simp add: min_def) (metis append_take_drop_id)

lemma HasSuffix_iff: "HasSuffix s p = (\<exists>t. s = t @ p)"
  unfolding HasSuffix_def
  by auto (metis append_take_drop_id)

lemma ToLower_ASCII: "isASCII s \<Longrightarrow> ToLower L s = map lowerASCII s"
  by (simp add: ToLower_def)

lemma ToLower_Nil: "ToLower L [] = []"
  by (simp add: ToLower_def isASCII_def)

lemma ToLower_samples:
  "ToLower L ''UTF-8'' = ''utf-8''"
  "ToLower L ''utf-8'' = ''utf-8''"
  "ToLower L ''latin1'' = ''latin1''"
  "ToLower L ''Windows-1255'' = ''windows-1255''"
  "ToLower L ''Q'' = ''q''"
  "ToLower L ''B'' = ''b''"
  by code_simp+

lemma EncodeToString_samples:
  "EncodeToString [CHR 0x01, CHR 0x02, CHR 0x03] = ''AQID''"
  "EncodeToString [CHR 0x01] = ''AQ==''"
  "EncodeToString [] = []"
  by (simp_all add: encodeStd_def)

section \<open>Facts about a run of the handler\<close>

lemma readAttachments_eq:
  "readAttachments as (tr, attachments) =
     (tr @ map (\<lambda>a. StreamRead (att_Data a)) as,
      attachments @ map (\<lambda>a. \<lparr>Filename = att_Filename a, ContentType = att_ContentType a,
                                Data = EncodeToString (content (att_Data a))\<rparr>) as)"
  by (induction as arbitrary: tr attachments) (simp_all add: ReadAll_def)

lemma readEmbeddedFiles_eq:
  "readEmbeddedFiles as (tr, embeddedFiles) =
     (tr @ map (\<lambda>a. StreamRead (emb_Data a)) as,
      embeddedFiles @ map (\<lambda>a. \<lparr>CID = emb_CID a, EmbeddedContentType = emb_ContentType a,
                                EmbeddedData = EncodeToString (content (emb_Data a))\<rparr>) as)"
  by (induction as arbitrary: tr embeddedFiles) (simp_all add: ReadAll_def)

lemma E_neq: "E1 \<noteq> ''Unauthorized TO domain''" "E2 \<noteq> ''Unauthorized TO domain''" "E1 \<noteq> E2"
  by (simp_all add: E1_def E2_def)

lemma posted_bodies_append: "posted_bodies (xs @ ys) = posted_bodies xs @ posted_bodies ys"
  by (induction xs rule: posted_bodies.induct) simp_all

lemma streams_read_append: "streams_read (xs @ ys) = streams_read xs @ streams_read ys"
  by (induction xs rule: streams_read.induct) simp_all

lemma logged_lines_append: "logged_lines (xs @ ys) = logged_lines xs @ logged_lines ys"
  by (induction xs rule: logged_lines.induct) simp_all

lemma posted_bodies_StreamRead: "posted_bodies (map (\<lambda>a. StreamRead (f a)) xs) = []"
  by (induction xs) simp_all

lemma streams_read_StreamRead: "streams_read (map (\<lambda>a. StreamRead (f a)) xs) = map f xs"
  by (induction xs) simp_all

lemma logged_lines_StreamRead: "logged_lines (map (\<lambda>a. StreamRead (f a)) xs) = []"
  by (induction xs) simp_all

lemmas run_simps =
  readAttachments_eq readEmbeddedFiles_eq E_neq posted_bodies_append streams_read_append
  logged_lines_append posted_bodies_StreamRead streams_read_StreamRead logged_lines_StreamRead
  DomainRejected_def Let_def

lemma Handler_rejected_iff:
  "ctx_Parse c = Inr msg \<Longrightarrow>
   (snd (Handler L F post c) = Some DomainRejected) =
   (flagDomain F \<noteq> [] \<and>
    (length (Split (mail_Address (ctx_To c)) (CHR ''@'')) < 2 \<or>
     Split (mail_Address (ctx_To c)) (CHR ''@'') ! 1 \<noteq> flagDomain F))"
  by (cases "decodeMIMEHeader L (msg_Subject msg)";
      cases "decodeCharset L (msg_HTMLBody msg) (msg_HTMLCharset msg)";
      cases "decodeCharset L (msg_TextBody msg) (msg_TextCharset msg)";
      cases post)
     (simp_all add: Handler_def run_simps)

lemma Handler_main_go_rejected_iff:
  "ctx_Parse c = Inr msg \<Longrightarrow>
   (snd (Handler_main_go L F post c) = Some DomainRejected) =
   (flagDomain F \<noteq> [] \<and>
    (length (Split (mail_Address (ctx_To c)) (CHR ''@'')) < 2 \<or>
     Split (mail_Address (ctx_To c)) (CHR ''@'') ! 1 \<noteq> flagDomain F))"
  by (cases "decodeCharset_main_go L (msg_HTMLBody msg) (msg_TextBody msg)"; cases post)
     (simp_all add: Handler_main_go_def run_simps)

lemma Handler_rejected_trace:
  "snd (Handler L F post c) = Some DomainRejected \<Longrightarrow>
   streams_read (fst (Handler L F post c)) = [] \<and> posted_bodies (fst (Handler L F post c)) = []"
proof (cases "ctx_Parse c")
  case (Inl err)
  then show ?thesis by (simp add: Handler_def)
next
  case (Inr msg)
  assume "snd (Handler L F post c) = Some DomainRejected"
  with Inr show ?thesis
    by (cases "decodeMIMEHeader L (msg_Subject msg)";
        cases "decodeCharset L (msg_HTMLBody msg) (msg_HTMLCharset msg)";
        cases "decodeCharset L (msg_TextBody msg) (msg_TextCharset msg)";
        cases post)
       (simp_all add: Handler_def run_simps split: if_splits)
qed

lemma Handler_main_go_rejected_trace:
  "snd (Handler_main_go L F post c) = Some DomainRejected \<Longrightarrow>
   streams_read (fst (Handler_main_go L F post c)) = [] \<and>
   posted_bodies (fst (Handler_main_go L F post c)) = []"
proof (cases "ctx_Parse c")
  case (Inl err)
  then show ?thesis by (simp add: Handler_main_go_def)
next
  case (Inr msg)
  assume "snd (Handler_main_go L F post c) = Some DomainRejected"
  with Inr show ?thesis
    by (cases "decodeCharset_main_go L (msg_HTMLBody msg) (msg_TextBody msg)"; cases post)
       (simp_all add: Handler_main_go_def run_simps split: if_splits)
qed

lemma Handler_result:
  "ctx_Parse c = Inr msg \<Longrightarrow> snd (Handler L F post c) \<noteq> Some DomainRejected \<Longrightarrow>
   snd (Handler L F post c) =
     (case post of
        Inl cause \<Rightarrow> Some (errors_New E1)
      | Inr resp \<Rightarrow> if StatusCode resp \<noteq> 200 then Some (errors_New E2) else None)"
  by (cases "decodeMIMEHeader L (msg_Subject msg)";
      cases "decodeCharset L (msg_HTMLBody msg) (msg_HTMLCharset msg)";
      cases "decodeCharset L (msg_TextBody msg) (msg_TextCharset msg)";
      cases post)
     (auto simp add: Handler_def run_simps split: if_splits)

lemma Handler_main_go_result:
  "ctx_Parse c = Inr msg \<Longrightarrow> snd (Handler_main_go L F post c) \<noteq> Some DomainRejected \<Longrightarrow>
   snd (Handler_main_go L F post c) =
     (case post of
        Inl cause \<Rightarrow> Some (errors_New E1)
      | Inr resp \<Rightarrow> if StatusCode resp \<noteq> 200 then Some (errors_New E2) else None)"
  by (cases "decodeCharset_main_go L (msg_HTMLBody msg) (msg_TextBody msg)"; cases post)
     (auto simp add: Handler_main_go_def run_simps split: if_splits)

lemma Handler_last_log:
  "ctx_Parse c = Inr msg \<Longrightarrow> snd (Handler L F post c) \<noteq> Some DomainRejected \<Longrightarrow>
   (case post of
      Inl cause \<Rightarrow> \<exists>ls. logged_lines (fst (Handler L F post c)) = ls @ [Error cause]
    | Inr resp \<Rightarrow> StatusCode resp \<noteq> 200 \<longrightarrow>
        (\<exists>ls. logged_lines (fst (Handler L F post c)) = ls @ [Status resp]))"
  by (cases "decodeMIMEHeader L (msg_Subject msg)";
      cases "decodeCharset L (msg_HTMLBody msg) (msg_HTMLCharset msg)";
      cases "decodeCharset L (msg_TextBody msg) (msg_TextCharset msg)";
      cases post)
     (auto simp add: Handler_def run_simps split: if_splits)

lemma Handler_main_go_last_log:
  "ctx_Parse c = Inr msg \<Longrightarrow> snd (Handler_main_go L F post c) \<noteq> Some DomainRejected \<Longrightarrow>
   (case post of
      Inl cause \<Rightarrow> \<exists>ls. logged_lines (fst (Handler_main_go L F post c)) = ls @ [Error cause]
    | Inr resp \<Rightarrow> StatusCode resp \<noteq> 200 \<longrightarrow>
        (\<exists>ls. logged_lines (fst (Handler_main_go L F post c)) = ls @ [Status resp]))"
  by (cases "decodeCharset_main_go L (msg_HTMLBody msg) (msg_TextBody msg)"; cases post)
     (auto simp add: Handler_main_go_def run_simps split: if_splits)

lemma Handler_posted_once:
  "ctx_Parse c = Inr msg \<Longrightarrow> snd (Handler L F post c) \<noteq> Some DomainRejected \<Longrightarrow>
   length (posted_bodies (fst (Handler L F post c))) = 1"
  by (cases "decodeMIMEHeader L (msg_Subject msg)";
      cases "decodeCharset L (msg_HTMLBody msg) (msg_HTMLCharset msg)";
      cases "decodeCharset L (msg_TextBody msg) (msg_TextCharset msg)";
      cases post)
     (auto simp add: Handler_def run_simps split: if_splits)

lemma Handler_main_go_posted_once:
  "ctx_Parse c = Inr msg \<Longrightarrow> snd (Handler_main_go L F post c) \<noteq> Some DomainRejected \<Longrightarrow>
   length (posted_bodies (fst (Handler_main_go L F post c))) = 1"
  by (cases "decodeCharset_main_go L (msg_HTMLBody msg) (msg_TextBody msg)"; cases post)
     (auto simp add: Handler_main_go_def run_simps split: if_splits)

lemma map_with_SPFResult_StreamRead:
  "map (with_SPFResult v) (map (\<lambda>a. StreamRead (f a)) xs) = map (\<lambda>a. StreamRead (f a)) xs"
  by (induction xs) simp_all

lemma Handler_items:
  "ctx_Parse c = Inr msg \<Longrightarrow> snd (Handler L F post c) \<noteq> Some DomainRejected \<Longrightarrow>
   map Attachments (posted_bodies (fst (Handler L F post c))) =
     [map (\<lambda>a. \<lparr>Filename = att_Filename a, ContentType = att_ContentType a,
                  Data = EncodeToString (content (att_Data a))\<rparr>) (msg_Attachments msg)]
   \<and> map EmbeddedFiles (posted_bodies (fst (Handler L F post c))) =
     [map (\<lambda>a. \<lparr>CID = emb_CID a, EmbeddedContentType = emb_ContentType a,
                  EmbeddedData = EncodeToString (content (emb_Data a))\<rparr>) (msg_EmbeddedFiles msg)]
   \<and> streams_read (fst (Handler L F post c)) =
     map att_Data (msg_Attachments msg) @ map emb_Data (msg_EmbeddedFiles msg)"
  by (cases "decodeMIMEHeader L (msg_Subject msg)";
      cases "decodeCharset L (msg_HTMLBody msg) (msg_HTMLCharset msg)";
      cases "decodeCharset L (msg_TextBody msg) (msg_TextCharset msg)";
      cases post)
     (auto simp add: Handler_def run_simps split: if_splits)

lemma Handler_subject:
  "ctx_Parse c = Inr msg \<Longrightarrow> snd (Handler L F post c) \<noteq> Some DomainRejected \<Longrightarrow>
   map Subject (posted_bodies (fst (Handler L F post c))) =
     [case decodeMIMEHeader L (msg_Subject msg) of Inl err \<Rightarrow> msg_Subject msg | Inr s \<Rightarrow> s]"
  by (cases "decodeMIMEHeader L (msg_Subject msg)";
      cases "decodeCharset L (msg_HTMLBody msg) (msg_HTMLCharset msg)";
      cases "decodeCharset L (msg_TextBody msg) (msg_TextCharset msg)";
      cases post)
     (auto simp add: Handler_def run_simps split: if_splits)

lemma Handler_spf_field:
  "ctx_Parse c = Inr msg \<Longrightarrow> snd (Handler L F post c) \<noteq> Some DomainRejected \<Longrightarrow>
   map SPFResult (posted_bodies (fst (Handler L F post c))) = [SPFResult_String (fst (ctx_SPF c))]"
  by (cases "decodeMIMEHeader L (msg_Subject msg)";
      cases "decodeCharset L (msg_HTMLBody msg) (msg_HTMLCharset msg)";
      cases "decodeCharset L (msg_TextBody msg) (msg_TextCharset msg)";
      cases post)
     (auto simp add: Handler_def run_simps split: if_splits)

lemma Handler_main_go_spf_field:
  "ctx_Parse c = Inr msg \<Longrightarrow> snd (Handler_main_go L F post c) \<noteq> Some DomainRejected \<Longrightarrow>
   map SPFResult (posted_bodies (fst (Handler_main_go L F post c))) =
     [SPFResult_String (fst (ctx_SPF c))]"
  by (cases "decodeCharset_main_go L (msg_HTMLBody msg) (msg_TextBody msg)"; cases post)
     (auto simp add: Handler_main_go_def run_simps split: if_splits)

lemma Handler_spf:
  "Handler L F post (c\<lparr>ctx_SPF := (v, expl, err)\<rparr>) =
     (map (with_SPFResult (SPFResult_String v)) (fst (Handler L F post c)),
      snd (Handler L F post c))"
proof (cases "ctx_Parse c")
  case (Inl e)
  then show ?thesis by (simp add: Handler_def)
next
  case (Inr msg)
  then show ?thesis
    by (cases "decodeMIMEHeader L (msg_Subject msg)";
        cases "decodeCharset L (msg_HTMLBody msg) (msg_HTMLCharset msg)";
        cases "decodeCharset L (msg_TextBody msg) (msg_TextCharset msg)";
        cases post)
       (simp_all add: Handler_def run_simps map_with_SPFResult_StreamRead)
qed

lemma Handler_main_go_spf:
  "Handler_main_go L F post (c\<lparr>ctx_SPF := (v, expl, err)\<rparr>) =
     (map (with_SPFResult (SPFResult_String v)) (fst (Handler_main_go L F post c)),
      snd (Handler_main_go L F post c))"
proof (cases "ctx_Parse c")
  case (Inl e)
  then show ?thesis by (simp add: Handler_main_go_def)
next
  case (Inr msg)
  then show ?thesis
    by (cases "decodeCharset_main_go L (msg_HTMLBody msg) (msg_TextBody msg)"; cases post)
       (simp_all add: Handler_main_go_def run_simps map_with_SPFResult_StreamRead)
qed

section \<open>Runs on the sample inputs\<close>

lemma sample_decodes:
  "decodeMIMEHeader L ''=?utf-8?Q?abc?='' = Inr ''=?utf-8?Q?abc?=''"
  "decodeCharset L body ''UTF-8'' = Inr body"
  "decodeCharset L body ''latin1'' = Inr body"
  by (simp_all add: decodeMIMEHeader_def HasPrefix_def HasSuffix_def Split_def ToLower_samples
        decodeCharset_def convertToUTF8_def getEncodingByName_def)

lemmas sample_defs =
  sample_ctx_def sample_flags_def open_flags_def sample_msg_def response_def Split_def
  sample_decodes encodeStd_def sample_lib_def decodeCharset_main_go_def

lemma sample_rejected:
  "Handler sample_lib sample_flags post (sample_ctx ''user@other.com'') =
     ([Logged ''domain not allowed'', Logged ''example.com''], Some DomainRejected)"
  "Handler_main_go sample_lib sample_flags post (sample_ctx ''user@other.com'') =
     ([Logged ''domain not allowed'', Logged ''example.com''], Some DomainRejected)"
  "snd (Handler sample_lib sample_flags post (sample_ctx ''user'')) = Some DomainRejected"
  "snd (Handler sample_lib sample_flags post (sample_ctx ''a@b@example.com'')) = Some DomainRejected"
  by (simp_all add: Handler_def Handler_main_go_def sample_defs run_simps)

lemma sample_accepted:
  "snd (Handler sample_lib sample_flags (response 200 ''200 OK'') (sample_ctx ''user@example.com'')) = None"
  "snd (Handler_main_go sample_lib sample_flags (response 200 ''200 OK'')
         (sample_ctx ''user@example.com'')) = None"
  "snd (Handler sample_lib sample_flags (response 200 ''200 OK'') (sample_ctx ''@example.com'')) = None"
  "snd (Handler_main_go sample_lib sample_flags (response 200 ''200 OK'')
         (sample_ctx ''@example.com'')) = None"
  "snd (Handler sample_lib open_flags (response 200 ''200 OK'') (sample_ctx ''user'')) = None"
  by (simp_all add: Handler_def Handler_main_go_def sample_defs run_simps)

text \<open>
  An address with two \<^verbatim>\<open>@\<close>: the handler compares the second piece of the
  split, here \<^verbatim>\<open>example.com\<close>, and not the piece after the last \<^verbatim>\<open>@\<close>.
\<close>

lemma sample_second_piece:
  "Split ''a@example.com@evil.com'' (CHR ''@'') = [''a'', ''example.com'', ''evil.com'']"
  "snd (Handler sample_lib sample_flags (response 200 ''200 OK'')
         (sample_ctx ''a@example.com@evil.com'')) = None"
  by (simp_all add: Handler_def sample_defs run_simps)

lemma sample_failures:
  "snd (Handler sample_lib sample_flags (Inl (errors_New ''dial tcp: connection refused''))
         (sample_ctx ''user@example.com'')) = Some (errors_New E1)"
  "snd (Handler sample_lib sample_flags (Inl (errors_New ''context deadline exceeded''))
         (sample_ctx ''user@example.com'')) = Some (errors_New E1)"
  "snd (Handler sample_lib sample_flags (response 500 ''500 Internal Server Error'')
         (sample_ctx ''user@example.com'')) = Some (errors_New E2)"
  "snd (Handler sample_lib sample_flags (response 201 ''201 Created'')
         (sample_ctx ''user@example.com'')) = Some (errors_New E2)"
  by (simp_all add: Handler_def sample_defs run_simps)

lemma sample_attachments:
  "map (map Data \<circ> Attachments)
     (posted_bodies (fst (Handler sample_lib sample_flags (response 200 ''200 OK'')
        (sample_ctx ''user@example.com'')))) = [[''AQID'', ''AQ=='']]"
  "map (map EmbeddedData \<circ> EmbeddedFiles)
     (posted_bodies (fst (Handler sample_lib sample_flags (response 200 ''200 OK'')
        (sample_ctx ''user@example.com'')))) = [[[]]]"
  by (simp_all add: Handler_def sample_defs run_simps)

section \<open>The charset decoder\<close>

text \<open>
  Claim C5. For every byte sequence and every charset name whose lower-cased form
  is \<^verbatim>\<open>utf-8\<close>, or is not the one registered name \<^verbatim>\<open>windows-1255\<close>,
  \<^verbatim>\<open>convertToUTF8\<close> (and \<^verbatim>\<open>decodeCharset\<close>, which calls it) returns the input
  bytes unchanged and no error: an unknown charset name never fails.
\<close>

theorem convertToUTF8_passthrough:
  "ToLower L charsetName = ''utf-8'' \<or> ToLower L charsetName \<noteq> ''windows-1255''
   \<Longrightarrow> convertToUTF8 L data charsetName = Inr data \<and> decodeCharset L data charsetName = Inr data"
  by (auto simp add: decodeCharset_def convertToUTF8_def getEncodingByName_def)

theorem convertToUTF8_passthrough_witness:
  "ToLower sample_lib ''UTF-8'' = ''utf-8''
   \<and> convertToUTF8 sample_lib ''abc'' ''UTF-8'' = Inr ''abc''
   \<and> ToLower sample_lib ''latin1'' \<noteq> ''windows-1255''
   \<and> decodeCharset sample_lib [CHR 0xE9] ''latin1'' = Inr [CHR 0xE9]"
proof -
  have h1: "ToLower sample_lib ''UTF-8'' = ''utf-8''"
    by (simp add: ToLower_samples)
  have h2: "ToLower sample_lib ''latin1'' \<noteq> ''windows-1255''"
    by (simp add: ToLower_samples)
  from h1 have "convertToUTF8 sample_lib ''abc'' ''UTF-8'' = Inr ''abc''"
    using convertToUTF8_passthrough [of sample_lib "''UTF-8''" "''abc''"] by blast
  moreover from h2 have "decodeCharset sample_lib [CHR 0xE9] ''latin1'' = Inr [CHR 0xE9]"
    using convertToUTF8_passthrough [of sample_lib "''latin1''" "[CHR 0xE9]"] by blast
  ultimately show ?thesis using h1 h2 by blast
qed

text \<open>
  Claim C10. The registry has one entry besides UTF-8: \<^verbatim>\<open>getEncodingByName\<close>
  selects the transcoding decoder exactly for the names that \<^verbatim>\<open>strings.ToLower\<close>
  maps to \<^verbatim>\<open>windows-1255\<close> (for an ASCII name: the names equal to it up to the
  case of the letters). \<^verbatim>\<open>convertToUTF8\<close> runs the decoder for those names only and
  is the identity for every other name, the empty name included, so it can return
  an error only when the declared charset is windows-1255.
\<close>

theorem getEncodingByName_registry:
  "(fst (getEncodingByName L name) = Windows1255) = (ToLower L name = ''windows-1255'')
   \<and> (snd (getEncodingByName L name) \<noteq> ''utf-8'') = (ToLower L name = ''windows-1255'')
   \<and> (isASCII name \<longrightarrow>
        (fst (getEncodingByName L name) = Windows1255) = (map lowerASCII name = ''windows-1255''))
   \<and> convertToUTF8 L data name =
        (if ToLower L name = ''windows-1255'' then Decoder_ReadAll L Windows1255 data else Inr data)
   \<and> convertToUTF8 L data [] = Inr data
   \<and> (\<forall>err. convertToUTF8 L data name = Inl err \<longrightarrow> ToLower L name = ''windows-1255'')"
  by (auto simp add: convertToUTF8_def getEncodingByName_def ToLower_Nil ToLower_ASCII
           split: sum.splits)

theorem getEncodingByName_registry_witness:
  "isASCII ''Windows-1255''
   \<and> map lowerASCII ''Windows-1255'' = ''windows-1255''
   \<and> fst (getEncodingByName sample_lib ''Windows-1255'') = Windows1255
   \<and> convertToUTF8 sample_lib [] ''Windows-1255'' = Inl (errors_New ''unexpected EOF'')
   \<and> ToLower sample_lib ''Windows-1255'' = ''windows-1255''"
proof -
  have a: "isASCII ''Windows-1255''"
    by (simp add: isASCII_def)
  have b: "map lowerASCII ''Windows-1255'' = ''windows-1255''"
    using a ToLower_samples(4) [of sample_lib] by (simp only: ToLower_ASCII)
  have c: "convertToUTF8 sample_lib [] ''Windows-1255'' = Inl (errors_New ''unexpected EOF'')"
    by (simp add: convertToUTF8_def getEncodingByName_def ToLower_samples sample_lib_def)
  note t = getEncodingByName_registry [of sample_lib "''Windows-1255''" "[]"]
  from t a b have d: "fst (getEncodingByName sample_lib ''Windows-1255'') = Windows1255"
    by blast
  from t c have e: "ToLower sample_lib ''Windows-1255'' = ''windows-1255''"
    by blast
  from a b c d e show ?thesis by blast
qed

section \<open>The MIME header decoder\<close>

text \<open>
  Claim C6. \<^verbatim>\<open>decodeMIMEHeader\<close> treats a value as an encoded word only when the
  whole value starts with \<^verbatim>\<open>=?\<close> and ends with \<^verbatim>\<open>?=\<close>. Such a value must split
  on \<^verbatim>\<open>?\<close> into exactly 5 fields: with any other number of fields the result is
  the error \<^verbatim>\<open>invalid MIME encoding format\<close>. A value outside the envelope is
  returned unchanged, with no error.
\<close>

theorem decodeMIMEHeader_envelope:
  "(HasPrefix encoded ''=?'' \<and> HasSuffix encoded ''?='' \<and> length (Split encoded (CHR ''?'')) \<noteq> 5
      \<longrightarrow> decodeMIMEHeader L encoded = Inl (errors_New ''invalid MIME encoding format''))
   \<and> (\<not> (HasPrefix encoded ''=?'' \<and> HasSuffix encoded ''?='')
      \<longrightarrow> decodeMIMEHeader L encoded = Inr encoded)"
  by (simp add: decodeMIMEHeader_def)

theorem decodeMIMEHeader_envelope_witness:
  "HasPrefix ''=?utf-8?B?='' ''=?'' \<and> HasSuffix ''=?utf-8?B?='' ''?=''
   \<and> length (Split ''=?utf-8?B?='' (CHR ''?'')) = 4
   \<and> decodeMIMEHeader sample_lib ''=?utf-8?B?='' = Inl (errors_New ''invalid MIME encoding format'')
   \<and> \<not> HasPrefix ''hello ?='' ''=?''
   \<and> decodeMIMEHeader sample_lib ''hello ?='' = Inr ''hello ?=''"
proof -
  have a: "HasPrefix ''=?utf-8?B?='' ''=?'' \<and> HasSuffix ''=?utf-8?B?='' ''?=''"
    by (simp add: HasPrefix_def HasSuffix_def)
  have b: "length (Split ''=?utf-8?B?='' (CHR ''?'')) = 4"
    by (simp add: Split_def)
  have c: "\<not> HasPrefix ''hello ?='' ''=?''"
    by (simp add: HasPrefix_def)
  from a b have d:
    "decodeMIMEHeader sample_lib ''=?utf-8?B?='' = Inl (errors_New ''invalid MIME encoding format'')"
    using decodeMIMEHeader_envelope [of "''=?utf-8?B?=''" sample_lib] by simp
  from c have e: "decodeMIMEHeader sample_lib ''hello ?='' = Inr ''hello ?=''"
    using decodeMIMEHeader_envelope [of "''hello ?=''" sample_lib] by blast
  from a b c d e show ?thesis by blast
qed

section \<open>The address canonicalizer\<close>

text \<open>
  Claim C8. For every sequence of N address records,
  \<^verbatim>\<open>transformStdAddressToEmailAddress\<close> returns exactly N addresses, the i-th made
  of the name and address of the i-th input: the order is kept and equal addresses
  are not merged. It distributes over concatenation.
\<close>

theorem transformStdAddressToEmailAddress_preserves:
  "length (transformStdAddressToEmailAddress addr) = length addr
   \<and> map Address (transformStdAddressToEmailAddress addr) = map mail_Address addr
   \<and> map Name (transformStdAddressToEmailAddress addr) = map mail_Name addr
   \<and> transformStdAddressToEmailAddress (addr @ addr') =
       transformStdAddressToEmailAddress addr @ transformStdAddressToEmailAddress addr'"
  by (induction addr) simp_all

theorem transformStdAddressToEmailAddress_preserves_witness:
  "length (transformStdAddressToEmailAddress (msg_Cc sample_msg)) = 2
   \<and> map Address (transformStdAddressToEmailAddress (msg_Cc sample_msg)) =
       [''c@example.com'', ''c@example.com'']"
  using transformStdAddressToEmailAddress_preserves [of "msg_Cc sample_msg" "[]"]
  by (simp add: sample_msg_def)

section \<open>The recipient-domain check\<close>

text \<open>
  Claim C1, as stated, fails: with the allowed domain \<^verbatim>\<open>example.com\<close>, the To
  address \<^verbatim>\<open>@example.com\<close> splits into an empty first part and the domain, and
  both versions of the handler accept it.
\<close>

theorem Handler_domain_counterexample:
  "Split ''@example.com'' (CHR ''@'') = [[], ''example.com'']
   \<and> flagDomain sample_flags = ''example.com''
   \<and> snd (Handler sample_lib sample_flags (response 200 ''200 OK'') (sample_ctx ''@example.com''))
       = None
   \<and> snd (Handler_main_go sample_lib sample_flags (response 200 ''200 OK'')
            (sample_ctx ''@example.com'')) = None"
  by (simp add: sample_accepted) (simp add: Split_def sample_flags_def)

text \<open>
  Claim C1, amended. For a parsed message, a non-empty allowed domain and a To
  address that splits on \<^verbatim>\<open>@\<close> into at most 2 parts, the handler rejects with
  \<^verbatim>\<open>Unauthorized TO domain\<close> if and only if the split does not give exactly 2 parts
  with the second equal to the allowed domain, byte for byte; the first part may be
  empty. So an address with no \<^verbatim>\<open>@\<close> is rejected, and \<open>local@domain\<close> is
  rejected exactly when \<open>domain\<close> differs from the allowed domain. With the empty
  allowed domain no address is rejected. Both versions of the handler behave so.
\<close>

theorem Handler_domain_check:
  assumes "H = Handler \<or> H = Handler_main_go"
    and "ctx_Parse c = Inr msg"
    and "parts = Split (mail_Address (ctx_To c)) (CHR ''@'')"
  shows
    "(flagDomain F \<noteq> [] \<and> length parts \<le> 2 \<longrightarrow>
        (snd (H L F post c) = Some DomainRejected) = (\<not> (length parts = 2 \<and> parts ! 1 = flagDomain F)))
     \<and> (flagDomain F \<noteq> [] \<and> CHR ''@'' \<notin> set (mail_Address (ctx_To c)) \<longrightarrow>
        snd (H L F post c) = Some DomainRejected)
     \<and> (\<forall>local domain.
          flagDomain F \<noteq> [] \<and> mail_Address (ctx_To c) = local @ ''@'' @ domain
          \<and> CHR ''@'' \<notin> set local \<and> CHR ''@'' \<notin> set domain \<longrightarrow>
          (snd (H L F post c) = Some DomainRejected) = (domain \<noteq> flagDomain F))
     \<and> (flagDomain F = [] \<longrightarrow> snd (H L F post c) \<noteq> Some DomainRejected)"
proof -
  have iff: "(snd (H L F post c) = Some DomainRejected) =
      (flagDomain F \<noteq> [] \<and> (length parts < 2 \<or> parts ! 1 \<noteq> flagDomain F))"
    using assms Handler_rejected_iff [of c msg L F post] Handler_main_go_rejected_iff [of c msg L F post]
    by auto
  have a: "flagDomain F \<noteq> [] \<and> length parts \<le> 2 \<longrightarrow>
        (snd (H L F post c) = Some DomainRejected) = (\<not> (length parts = 2 \<and> parts ! 1 = flagDomain F))"
    unfolding iff by auto
  have b: "flagDomain F \<noteq> [] \<and> CHR ''@'' \<notin> set (mail_Address (ctx_To c)) \<longrightarrow>
        snd (H L F post c) = Some DomainRejected"
    unfolding iff using assms(3) by (simp add: Split_no_sep)
  have c: "\<forall>local domain.
          flagDomain F \<noteq> [] \<and> mail_Address (ctx_To c) = local @ ''@'' @ domain
          \<and> CHR ''@'' \<notin> set local \<and> CHR ''@'' \<notin> set domain \<longrightarrow>
          (snd (H L F post c) = Some DomainRejected) = (domain \<noteq> flagDomain F)"
    unfolding iff using assms(3) by (auto simp add: Split_once)
  have d: "flagDomain F = [] \<longrightarrow> snd (H L F post c) \<noteq> Some DomainRejected"
    unfolding iff by simp
  from a b c d show ?thesis by blast
qed

theorem Handler_domain_check_witness:
  "ctx_Parse (sample_ctx ''user@other.com'') = Inr sample_msg
   \<and> Split (mail_Address (ctx_To (sample_ctx ''user@other.com''))) (CHR ''@'') = [''user'', ''other.com'']
   \<and> flagDomain sample_flags = ''example.com''
   \<and> snd (Handler sample_lib sample_flags (response 200 ''200 OK'') (sample_ctx ''user@other.com''))
       = Some DomainRejected
   \<and> ctx_Parse (sample_ctx ''@example.com'') = Inr sample_msg
   \<and> mail_Address (ctx_To (sample_ctx ''@example.com'')) = [] @ ''@'' @ ''example.com''
   \<and> snd (Handler_main_go sample_lib sample_flags (response 200 ''200 OK'')
            (sample_ctx ''@example.com'')) \<noteq> Some DomainRejected
   \<and> flagDomain open_flags = []
   \<and> snd (Handler sample_lib open_flags (response 200 ''200 OK'') (sample_ctx ''user''))
       \<noteq> Some DomainRejected"
proof -
  have p1: "ctx_Parse (sample_ctx ''user@other.com'') = Inr sample_msg"
    and p2: "ctx_Parse (sample_ctx ''@example.com'') = Inr sample_msg"
    and p3: "ctx_Parse (sample_ctx ''user'') = Inr sample_msg"
    by (simp_all add: sample_ctx_def)
  have s1: "Split (mail_Address (ctx_To (sample_ctx ''user@other.com''))) (CHR ''@'')
              = [''user'', ''other.com'']"
    by (simp add: sample_ctx_def Split_def)
  have s2: "mail_Address (ctx_To (sample_ctx ''@example.com'')) = [] @ ''@'' @ ''example.com''"
    by (simp add: sample_ctx_def)
  have s3: "Split (mail_Address (ctx_To (sample_ctx ''@example.com''))) (CHR ''@'')
              = [[], ''example.com'']"
    by (simp add: sample_ctx_def Split_def)
  have f1: "flagDomain sample_flags = ''example.com''" and f2: "flagDomain open_flags = []"
    by (simp_all add: sample_flags_def open_flags_def)
  have r1: "snd (Handler sample_lib sample_flags (response 200 ''200 OK'')
                  (sample_ctx ''user@other.com'')) = Some DomainRejected"
    using Handler_domain_check [of Handler "sample_ctx ''user@other.com''" sample_msg
            "[''user'', ''other.com'']" sample_flags sample_lib "response 200 ''200 OK''"]
          p1 s1 f1
    by simp
  have r2: "snd (Handler_main_go sample_lib sample_flags (response 200 ''200 OK'')
                  (sample_ctx ''@example.com'')) \<noteq> Some DomainRejected"
    using Handler_domain_check [of Handler_main_go "sample_ctx ''@example.com''" sample_msg
            "[[], ''example.com'']" sample_flags sample_lib "response 200 ''200 OK''"]
          p2 s3 f1
    by simp
  have r3: "snd (Handler sample_lib open_flags (response 200 ''200 OK'') (sample_ctx ''user''))
              \<noteq> Some DomainRejected"
    using Handler_domain_check [of Handler "sample_ctx ''user''" sample_msg
            "Split (mail_Address (ctx_To (sample_ctx ''user''))) (CHR ''@'')"
            open_flags sample_lib "response 200 ''200 OK''"]
          p3 f2
    by blast
  from p1 p2 s1 s2 f1 f2 r1 r2 r3 show ?thesis by blast
qed

text \<open>
  Claim C4. Whenever the handler rejects with \<^verbatim>\<open>Unauthorized TO domain\<close>, the
  run has read no data stream of an attachment or embedded file and has issued no
  HTTP POST. Both versions of the handler behave so.
\<close>

theorem Handler_rejected_no_effects:
  assumes "H = Handler \<or> H = Handler_main_go"
    and "snd (H L F post c) = Some DomainRejected"
  shows "streams_read (fst (H L F post c)) = [] \<and> posted_bodies (fst (H L F post c)) = []"
  using assms Handler_rejected_trace [of L F post c] Handler_main_go_rejected_trace [of L F post c]
  by blast

theorem Handler_rejected_no_effects_witness:
  "snd (Handler sample_lib sample_flags (response 200 ''200 OK'') (sample_ctx ''user@other.com''))
     = Some DomainRejected
   \<and> msg_Attachments sample_msg \<noteq> []
   \<and> streams_read (fst (Handler sample_lib sample_flags (response 200 ''200 OK'')
        (sample_ctx ''user@other.com''))) = []
   \<and> posted_bodies (fst (Handler sample_lib sample_flags (response 200 ''200 OK'')
        (sample_ctx ''user@other.com''))) = []
   \<and> snd (Handler_main_go sample_lib sample_flags (response 200 ''200 OK'')
        (sample_ctx ''user@other.com'')) = Some DomainRejected
   \<and> posted_bodies (fst (Handler_main_go sample_lib sample_flags (response 200 ''200 OK'')
        (sample_ctx ''user@other.com''))) = []"
proof -
  have h1: "snd (Handler sample_lib sample_flags (response 200 ''200 OK'')
                  (sample_ctx ''user@other.com'')) = Some DomainRejected"
    and h2: "snd (Handler_main_go sample_lib sample_flags (response 200 ''200 OK'')
                  (sample_ctx ''user@other.com'')) = Some DomainRejected"
    by (simp_all add: sample_rejected)
  have a: "msg_Attachments sample_msg \<noteq> []"
    by (simp add: sample_msg_def)
  note t1 = Handler_rejected_no_effects [of Handler sample_lib sample_flags
              "response 200 ''200 OK''" "sample_ctx ''user@other.com''"]
  note t2 = Handler_rejected_no_effects [of Handler_main_go sample_lib sample_flags
              "response 200 ''200 OK''" "sample_ctx ''user@other.com''"]
  from h1 h2 a t1 t2 show ?thesis by blast
qed

section \<open>The webhook relay\<close>

text \<open>
  Claim C3, as stated, fails: the rejection does not carry the cause. Two
  transport failures with different causes give the same returned error, the fixed
  text \<open>E1\<close>, and two responses with different status lines give the fixed text
  \<open>E2\<close>.
\<close>

theorem Handler_webhook_counterexample:
  "snd (Handler sample_lib sample_flags (Inl (errors_New ''dial tcp: connection refused''))
         (sample_ctx ''user@example.com''))
     = Some (errors_New ''E1: Cannot accept your message due to internal error, please report that to our engineers'')
   \<and> snd (Handler sample_lib sample_flags (Inl (errors_New ''context deadline exceeded''))
         (sample_ctx ''user@example.com''))
     = Some (errors_New ''E1: Cannot accept your message due to internal error, please report that to our engineers'')
   \<and> snd (Handler sample_lib sample_flags (response 500 ''500 Internal Server Error'')
         (sample_ctx ''user@example.com''))
     = Some (errors_New ''E2: Cannot accept your message due to internal error, please report that to our engineers'')
   \<and> snd (Handler sample_lib sample_flags (response 201 ''201 Created'')
         (sample_ctx ''user@example.com''))
     = Some (errors_New ''E2: Cannot accept your message due to internal error, please report that to our engineers'')"
  by (simp add: sample_failures) (simp add: E1_def E2_def)

text \<open>
  Claim C3, amended. For every run that reaches the delivery (the message parsed
  and the recipient not rejected), the handler issues exactly one POST and accepts
  the message if and only if the POST completes and the response status code is
  exactly 200. A transport failure gives the fixed rejection \<open>E1\<close>, whatever the
  cause, and the cause is the last line written to the log; a completed response
  with another status code gives the fixed rejection \<open>E2\<close>, and the status line
  of the response is the last line written to the log. Both versions of the handler
  behave so.
\<close>

theorem Handler_webhook_result:
  assumes "H = Handler \<or> H = Handler_main_go"
    and "ctx_Parse c = Inr msg"
    and "snd (H L F post c) \<noteq> Some DomainRejected"
  shows
    "(snd (H L F post c) = None) = (\<exists>resp. post = Inr resp \<and> StatusCode resp = 200)
     \<and> (\<forall>cause. post = Inl cause \<longrightarrow>
          snd (H L F post c) = Some (errors_New E1)
          \<and> (\<exists>ls. logged_lines (fst (H L F post c)) = ls @ [Error cause]))
     \<and> (\<forall>resp. post = Inr resp \<and> StatusCode resp \<noteq> 200 \<longrightarrow>
          snd (H L F post c) = Some (errors_New E2)
          \<and> (\<exists>ls. logged_lines (fst (H L F post c)) = ls @ [Status resp]))
     \<and> length (posted_bodies (fst (H L F post c))) = 1"
proof -
  have res: "snd (H L F post c) =
     (case post of
        Inl cause \<Rightarrow> Some (errors_New E1)
      | Inr resp \<Rightarrow> if StatusCode resp \<noteq> 200 then Some (errors_New E2) else None)"
    using assms Handler_result [of c msg L F post] Handler_main_go_result [of c msg L F post]
    by blast
  have log: "(case post of
      Inl cause \<Rightarrow> \<exists>ls. logged_lines (fst (H L F post c)) = ls @ [Error cause]
    | Inr resp \<Rightarrow> StatusCode resp \<noteq> 200 \<longrightarrow>
        (\<exists>ls. logged_lines (fst (H L F post c)) = ls @ [Status resp]))"
    using assms Handler_last_log [of c msg L F post] Handler_main_go_last_log [of c msg L F post]
    by blast
  have once: "length (posted_bodies (fst (H L F post c))) = 1"
    using assms Handler_posted_once [of c msg L F post] Handler_main_go_posted_once [of c msg L F post]
    by blast
  have a: "(snd (H L F post c) = None) = (\<exists>resp. post = Inr resp \<and> StatusCode resp = 200)"
    unfolding res by (cases post) simp_all
  have b: "\<forall>cause. post = Inl cause \<longrightarrow>
          snd (H L F post c) = Some (errors_New E1)
          \<and> (\<exists>ls. logged_lines (fst (H L F post c)) = ls @ [Error cause])"
    using res log by (cases post) simp_all
  have c: "\<forall>resp. post = Inr resp \<and> StatusCode resp \<noteq> 200 \<longrightarrow>
          snd (H L F post c) = Some (errors_New E2)
          \<and> (\<exists>ls. logged_lines (fst (H L F post c)) = ls @ [Status resp])"
    using res log by (cases post) simp_all
  from a b c once show ?thesis by blast
qed

theorem Handler_webhook_result_witness:
  "ctx_Parse (sample_ctx ''user@example.com'') = Inr sample_msg
   \<and> snd (Handler sample_lib sample_flags (response 201 ''201 Created'')
            (sample_ctx ''user@example.com'')) \<noteq> Some DomainRejected
   \<and> snd (Handler sample_lib sample_flags (response 201 ''201 Created'')
            (sample_ctx ''user@example.com'')) \<noteq> None
   \<and> (\<exists>ls. logged_lines (fst (Handler sample_lib sample_flags (response 201 ''201 Created'')
            (sample_ctx ''user@example.com''))) = ls @ [''201 Created''])
   \<and> snd (Handler_main_go sample_lib sample_flags (response 200 ''200 OK'')
            (sample_ctx ''user@example.com'')) \<noteq> Some DomainRejected
   \<and> length (posted_bodies (fst (Handler_main_go sample_lib sample_flags (response 200 ''200 OK'')
            (sample_ctx ''user@example.com'')))) = 1"
proof -
  have p: "ctx_Parse (sample_ctx ''user@example.com'') = Inr sample_msg"
    by (simp add: sample_ctx_def)
  have n1: "snd (Handler sample_lib sample_flags (response 201 ''201 Created'')
                  (sample_ctx ''user@example.com'')) \<noteq> Some DomainRejected"
    by (simp add: sample_failures DomainRejected_def E_neq)
  have n2: "snd (Handler_main_go sample_lib sample_flags (response 200 ''200 OK'')
                  (sample_ctx ''user@example.com'')) \<noteq> Some DomainRejected"
    by (simp add: sample_accepted)
  have r: "response 201 ''201 Created'' = Inr \<lparr>StatusCode = 201, Status = ''201 Created''\<rparr>"
    by (simp add: response_def)
  note t1 = Handler_webhook_result [of Handler "sample_ctx ''user@example.com''" sample_msg
              sample_lib sample_flags "response 201 ''201 Created''"]
  note t2 = Handler_webhook_result [of Handler_main_go "sample_ctx ''user@example.com''" sample_msg
              sample_lib sample_flags "response 200 ''200 OK''"]
  from t1 p n1 r
  have a: "snd (Handler sample_lib sample_flags (response 201 ''201 Created'')
                 (sample_ctx ''user@example.com'')) \<noteq> None
     \<and> (\<exists>ls. logged_lines (fst (Handler sample_lib sample_flags (response 201 ''201 Created'')
            (sample_ctx ''user@example.com''))) = ls @ [''201 Created''])"
    by simp
  from t2 p n2
  have b: "length (posted_bodies (fst (Handler_main_go sample_lib sample_flags
             (response 200 ''200 OK'') (sample_ctx ''user@example.com'')))) = 1"
    by blast
  from p n1 n2 a b show ?thesis by blast
qed

section \<open>Attachments and embedded files\<close>

text \<open>
  Claim C7, as stated, fails: a read failure does not give an empty payload when
  the stream has delivered bytes before failing. The second attachment of the
  sample message delivers the byte 1 and then fails, and its data in the posted
  record is the base64 of that byte.
\<close>

theorem Handler_attachment_counterexample:
  "map att_Data (msg_Attachments sample_msg) =
     [Reader [CHR 0x01, CHR 0x02, CHR 0x03] None,
      Reader [CHR 0x01] (Some (errors_New ''connection reset''))]
   \<and> map (map Data \<circ> Attachments)
        (posted_bodies (fst (Handler sample_lib sample_flags (response 200 ''200 OK'')
           (sample_ctx ''user@example.com'')))) = [[''AQID'', ''AQ=='']]"
  by (simp add: sample_attachments) (simp add: sample_msg_def)

text \<open>
  Claim C7, amended. In every run that reaches the delivery, the handler reads the
  data stream of every attachment and then of every embedded file, in the order of
  the message, and the posted record lists the items in that order, each with the
  standard base64 encoding of the bytes its stream delivered (the bytes 1, 2, 3 give
  \<^verbatim>\<open>AQID\<close>). A read failure is not fatal: the item's data is the encoding of the
  bytes read before the failure, which is the empty payload only when there were
  none, and the returned error depends on the outcome of the POST alone.
\<close>

theorem Handler_items_materialized:
  assumes "ctx_Parse c = Inr msg"
    and "snd (Handler L F post c) \<noteq> Some DomainRejected"
  shows
    "map Attachments (posted_bodies (fst (Handler L F post c))) =
       [map (\<lambda>a. \<lparr>Filename = att_Filename a, ContentType = att_ContentType a,
                    Data = EncodeToString (fst (ReadAll (att_Data a)))\<rparr>) (msg_Attachments msg)]
     \<and> map EmbeddedFiles (posted_bodies (fst (Handler L F post c))) =
       [map (\<lambda>a. \<lparr>CID = emb_CID a, EmbeddedContentType = emb_ContentType a,
                    EmbeddedData = EncodeToString (fst (ReadAll (emb_Data a)))\<rparr>)
            (msg_EmbeddedFiles msg)]
     \<and> streams_read (fst (Handler L F post c)) =
       map att_Data (msg_Attachments msg) @ map emb_Data (msg_EmbeddedFiles msg)
     \<and> EncodeToString [CHR 0x01, CHR 0x02, CHR 0x03] = ''AQID''
     \<and> EncodeToString (fst (ReadAll (Reader bs failed))) = EncodeToString bs
     \<and> snd (Handler L F post c) =
         (case post of
            Inl cause \<Rightarrow> Some (errors_New E1)
          | Inr resp \<Rightarrow> if StatusCode resp \<noteq> 200 then Some (errors_New E2) else None)"
  using Handler_items [OF assms] Handler_result [OF assms]
  by (simp add: ReadAll_def encodeStd_def)

theorem Handler_items_materialized_witness:
  "ctx_Parse (sample_ctx ''user@example.com'') = Inr sample_msg
   \<and> snd (Handler sample_lib sample_flags (response 200 ''200 OK'')
            (sample_ctx ''user@example.com'')) \<noteq> Some DomainRejected
   \<and> map Attachments
        (posted_bodies (fst (Handler sample_lib sample_flags (response 200 ''200 OK'')
           (sample_ctx ''user@example.com'')))) =
       [[\<lparr>Filename = ''a.bin'', ContentType = ''application/octet-stream'', Data = ''AQID''\<rparr>,
         \<lparr>Filename = ''b.bin'', ContentType = ''application/octet-stream'', Data = ''AQ==''\<rparr>]]
   \<and> map EmbeddedFiles
        (posted_bodies (fst (Handler sample_lib sample_flags (response 200 ''200 OK'')
           (sample_ctx ''user@example.com'')))) =
       [[\<lparr>CID = ''cid-1'', EmbeddedContentType = ''image/png'', EmbeddedData = []\<rparr>]]"
proof -
  have p: "ctx_Parse (sample_ctx ''user@example.com'') = Inr sample_msg"
    by (simp add: sample_ctx_def)
  have n: "snd (Handler sample_lib sample_flags (response 200 ''200 OK'')
                 (sample_ctx ''user@example.com'')) \<noteq> Some DomainRejected"
    by (simp add: sample_accepted)
  have r1: "map (\<lambda>a. \<lparr>Filename = att_Filename a, ContentType = att_ContentType a,
                    Data = EncodeToString (fst (ReadAll (att_Data a)))\<rparr>) (msg_Attachments sample_msg)
     = [\<lparr>Filename = ''a.bin'', ContentType = ''application/octet-stream'', Data = ''AQID''\<rparr>,
        \<lparr>Filename = ''b.bin'', ContentType = ''application/octet-stream'', Data = ''AQ==''\<rparr>]"
    by (simp add: sample_msg_def ReadAll_def encodeStd_def)
  have r2: "map (\<lambda>a. \<lparr>CID = emb_CID a, EmbeddedContentType = emb_ContentType a,
                    EmbeddedData = EncodeToString (fst (ReadAll (emb_Data a)))\<rparr>)
            (msg_EmbeddedFiles sample_msg)
     = [\<lparr>CID = ''cid-1'', EmbeddedContentType = ''image/png'', EmbeddedData = []\<rparr>]"
    by (simp add: sample_msg_def ReadAll_def)
  note t = Handler_items_materialized [OF p n, of "[]" None]
  from t [THEN conjunct1] have a: "map Attachments
        (posted_bodies (fst (Handler sample_lib sample_flags (response 200 ''200 OK'')
           (sample_ctx ''user@example.com'')))) =
       [[\<lparr>Filename = ''a.bin'', ContentType = ''application/octet-stream'', Data = ''AQID''\<rparr>,
         \<lparr>Filename = ''b.bin'', ContentType = ''application/octet-stream'', Data = ''AQ==''\<rparr>]]"
    unfolding r1 .
  from t [THEN conjunct2, THEN conjunct1] have b: "map EmbeddedFiles
        (posted_bodies (fst (Handler sample_lib sample_flags (response 200 ''200 OK'')
           (sample_ctx ''user@example.com'')))) =
       [[\<lparr>CID = ''cid-1'', EmbeddedContentType = ''image/png'', EmbeddedData = []\<rparr>]]"
    unfolding r2 .
  from p n a b show ?thesis by blast
qed

section \<open>The SPF verdict\<close>

text \<open>
  Claim C9. The explanation and the error that \<^verbatim>\<open>c.SPF()\<close> returns beside the
  verdict are discarded: a run does not depend on them. The verdict changes nothing
  but the \<open>SPFResult\<close> field of the posted record, which is its string rendering:
  the returned error is the same for every SPF outcome, and so are all events up
  to that field. Both versions of the handler behave so.
\<close>

theorem Handler_spf_passthrough:
  assumes "H = Handler \<or> H = Handler_main_go"
  shows
    "H L F post (c\<lparr>ctx_SPF := (v, expl, err)\<rparr>) = H L F post (c\<lparr>ctx_SPF := (v, expl', err')\<rparr>)
     \<and> snd (H L F post (c\<lparr>ctx_SPF := (v, expl, err)\<rparr>)) = snd (H L F post c)
     \<and> fst (H L F post (c\<lparr>ctx_SPF := (v, expl, err)\<rparr>)) =
         map (with_SPFResult (SPFResult_String v)) (fst (H L F post c))
     \<and> (ctx_Parse c = Inr msg \<and> snd (H L F post c) \<noteq> Some DomainRejected \<longrightarrow>
         map SPFResult (posted_bodies (fst (H L F post c))) = [SPFResult_String (fst (ctx_SPF c))])"
  using assms
proof
  assume H: "H = Handler"
  show ?thesis
    unfolding H using Handler_spf_field [of c msg L F post]
    by (simp add: Handler_spf)
next
  assume H: "H = Handler_main_go"
  show ?thesis
    unfolding H using Handler_main_go_spf_field [of c msg L F post]
    by (simp add: Handler_main_go_spf)
qed

theorem Handler_spf_passthrough_witness:
  "snd (Handler sample_lib sample_flags (response 200 ''200 OK'')
         ((sample_ctx ''user@example.com'')
            \<lparr>ctx_SPF := (SPFFail, ''no match'', Some (errors_New ''lookup failed''))\<rparr>)) = None
   \<and> snd (Handler_main_go sample_lib sample_flags (response 200 ''200 OK'')
         ((sample_ctx ''user@example.com'')
            \<lparr>ctx_SPF := (SPFTemperror, [], Some (errors_New ''lookup failed''))\<rparr>)) = None
   \<and> ctx_Parse (sample_ctx ''user@example.com'') = Inr sample_msg
   \<and> snd (Handler sample_lib sample_flags (response 200 ''200 OK'')
            (sample_ctx ''user@example.com'')) \<noteq> Some DomainRejected
   \<and> map SPFResult (posted_bodies (fst (Handler sample_lib sample_flags (response 200 ''200 OK'')
        (sample_ctx ''user@example.com'')))) = [''pass'']"
proof -
  have p: "ctx_Parse (sample_ctx ''user@example.com'') = Inr sample_msg"
    by (simp add: sample_ctx_def)
  have n: "snd (Handler sample_lib sample_flags (response 200 ''200 OK'')
                 (sample_ctx ''user@example.com'')) \<noteq> Some DomainRejected"
    by (simp add: sample_accepted)
  have v: "SPFResult_String (fst (ctx_SPF (sample_ctx ''user@example.com''))) = ''pass''"
    by (simp add: sample_ctx_def)
  note t1 = Handler_spf_passthrough [OF disjI1 [OF refl], where L = sample_lib and F = sample_flags
            and post = "response 200 ''200 OK''" and c = "sample_ctx ''user@example.com''"
            and v = SPFFail and expl = "''no match''"
            and err = "Some (errors_New ''lookup failed'')" and msg = sample_msg]
  note t2 = Handler_spf_passthrough [OF disjI2 [OF refl], where L = sample_lib
            and F = sample_flags and post = "response 200 ''200 OK''"
            and c = "sample_ctx ''user@example.com''" and v = SPFTemperror and expl = "[]"
            and err = "Some (errors_New ''lookup failed'')"]
  have a: "snd (Handler sample_lib sample_flags (response 200 ''200 OK'')
         ((sample_ctx ''user@example.com'')
            \<lparr>ctx_SPF := (SPFFail, ''no match'', Some (errors_New ''lookup failed''))\<rparr>)) = None"
    using t1 [THEN conjunct2, THEN conjunct1] by (simp only: sample_accepted)
  have b: "snd (Handler_main_go sample_lib sample_flags (response 200 ''200 OK'')
         ((sample_ctx ''user@example.com'')
            \<lparr>ctx_SPF := (SPFTemperror, [], Some (errors_New ''lookup failed''))\<rparr>)) = None"
    using t2 [THEN conjunct2, THEN conjunct1] by (simp only: sample_accepted)
  have c: "map SPFResult (posted_bodies (fst (Handler sample_lib sample_flags
             (response 200 ''200 OK'') (sample_ctx ''user@example.com'')))) = [''pass'']"
    using t1 [THEN conjunct2, THEN conjunct2, THEN conjunct2, THEN mp, OF conjI [OF p n]]
    by (simp only: v)
  from p n a b c show ?thesis by blast
qed

section \<open>Encoded words in another encoding\<close>

text \<open>
  Claim C2, as stated, fails: for an encoded word with the encoding \<^verbatim>\<open>Q\<close>,
  \<^verbatim>\<open>decodeMIMEHeader\<close> does not return an error. It returns the raw value, with
  no error.
\<close>

theorem decodeMIMEHeader_Q_counterexample:
  "HasPrefix ''=?utf-8?Q?abc?='' ''=?'' \<and> HasSuffix ''=?utf-8?Q?abc?='' ''?=''
   \<and> Split ''=?utf-8?Q?abc?='' (CHR ''?'') = [''='', ''utf-8'', ''Q'', ''abc'', ''='']
   \<and> decodeMIMEHeader sample_lib ''=?utf-8?Q?abc?='' = Inr ''=?utf-8?Q?abc?=''"
  by (simp add: sample_decodes) (simp add: HasPrefix_def HasSuffix_def Split_def)

text \<open>
  Claim C2, amended. For every header value in the envelope that splits into
  exactly 5 fields and whose encoding field, lower-cased, is not \<^verbatim>\<open>b\<close> (so for
  \<^verbatim>\<open>Q\<close>), \<^verbatim>\<open>decodeMIMEHeader\<close> returns no error: it returns the value
  unchanged. The handler then posts the original raw header string as the subject,
  as it does whenever \<^verbatim>\<open>decodeMIMEHeader\<close> returns an error.
\<close>

theorem decodeMIMEHeader_unsupported_encoding:
  assumes "HasPrefix encoded ''=?''" and "HasSuffix encoded ''?=''"
    and "length (Split encoded (CHR ''?'')) = 5"
    and "ToLower L (Split encoded (CHR ''?'') ! 2) \<noteq> ''b''"
  shows
    "decodeMIMEHeader L encoded = Inr encoded
     \<and> (ctx_Parse c = Inr msg \<and> msg_Subject msg = encoded
          \<and> snd (Handler L F post c) \<noteq> Some DomainRejected \<longrightarrow>
        map Subject (posted_bodies (fst (Handler L F post c))) = [encoded])
     \<and> (\<forall>err. ctx_Parse c' = Inr msg' \<and> decodeMIMEHeader L (msg_Subject msg') = Inl err
          \<and> snd (Handler L F post c') \<noteq> Some DomainRejected \<longrightarrow>
        map Subject (posted_bodies (fst (Handler L F post c'))) = [msg_Subject msg'])"
proof -
  have a: "decodeMIMEHeader L encoded = Inr encoded"
    using assms by (simp add: decodeMIMEHeader_def Let_def)
  have b: "ctx_Parse c = Inr msg \<and> msg_Subject msg = encoded
          \<and> snd (Handler L F post c) \<noteq> Some DomainRejected \<longrightarrow>
        map Subject (posted_bodies (fst (Handler L F post c))) = [encoded]"
    using a Handler_subject [of c msg L F post] by auto
  have c: "\<forall>err. ctx_Parse c' = Inr msg' \<and> decodeMIMEHeader L (msg_Subject msg') = Inl err
          \<and> snd (Handler L F post c') \<noteq> Some DomainRejected \<longrightarrow>
        map Subject (posted_bodies (fst (Handler L F post c'))) = [msg_Subject msg']"
    using Handler_subject [of c' msg' L F post] by auto
  from a b c show ?thesis by blast
qed

theorem decodeMIMEHeader_unsupported_encoding_witness:
  "HasPrefix ''=?utf-8?Q?abc?='' ''=?'' \<and> HasSuffix ''=?utf-8?Q?abc?='' ''?=''
   \<and> length (Split ''=?utf-8?Q?abc?='' (CHR ''?'')) = 5
   \<and> ToLower sample_lib (Split ''=?utf-8?Q?abc?='' (CHR ''?'') ! 2) = ''q''
   \<and> ctx_Parse (sample_ctx ''user@example.com'') = Inr sample_msg
   \<and> msg_Subject sample_msg = ''=?utf-8?Q?abc?=''
   \<and> snd (Handler sample_lib sample_flags (response 200 ''200 OK'')
            (sample_ctx ''user@example.com'')) \<noteq> Some DomainRejected
   \<and> map Subject (posted_bodies (fst (Handler sample_lib sample_flags (response 200 ''200 OK'')
        (sample_ctx ''user@example.com'')))) = [''=?utf-8?Q?abc?='']"
proof -
  have h1: "HasPrefix ''=?utf-8?Q?abc?='' ''=?''" and h2: "HasSuffix ''=?utf-8?Q?abc?='' ''?=''"
    by (simp_all add: HasPrefix_def HasSuffix_def)
  have h3: "length (Split ''=?utf-8?Q?abc?='' (CHR ''?'')) = 5"
    by (simp add: Split_def)
  have h4: "ToLower sample_lib (Split ''=?utf-8?Q?abc?='' (CHR ''?'') ! 2) = ''q''"
    by (simp add: Split_def ToLower_samples)
  have h4': "ToLower sample_lib (Split ''=?utf-8?Q?abc?='' (CHR ''?'') ! 2) \<noteq> ''b''"
    unfolding h4 by simp
  have p: "ctx_Parse (sample_ctx ''user@example.com'') = Inr sample_msg"
    by (simp add: sample_ctx_def)
  have s: "msg_Subject sample_msg = ''=?utf-8?Q?abc?=''"
    by (simp add: sample_msg_def)
  have n: "snd (Handler sample_lib sample_flags (response 200 ''200 OK'')
                 (sample_ctx ''user@example.com'')) \<noteq> Some DomainRejected"
    by (simp add: sample_accepted)
  note t = decodeMIMEHeader_unsupported_encoding [OF h1 h2 h3 h4',
             where c = "sample_ctx ''user@example.com''" and msg = sample_msg
               and F = sample_flags and post = "response 200 ''200 OK''"]
  have r: "map Subject (posted_bodies (fst (Handler sample_lib sample_flags
             (response 200 ''200 OK'') (sample_ctx ''user@example.com'')))) = [''=?utf-8?Q?abc?='']"
    using t [THEN conjunct2, THEN conjunct1, THEN mp, OF conjI [OF p conjI [OF s n]]] .
  from h1 h2 h3 h4 p s n r show ?thesis by blast
qed

end
